theory Spec2Isabelle
  imports Main
begin

section \<open>The file cleaner of AugmentCode-Free (augment_tools_core/file_cleaner.py)\<close>

text \<open>
  The module deletes IDE state files, escalating when a file is locked, removes history and
  extension directories, and filters the extensions manifest. Every function of the class
  \<open>FileCleaner\<close> is embedded below as a HOL function of the same name. What the module does
  to the outside world is made explicit in two ways:
  \<^item> the operating system and the library calls the module relies on (\<open>Path.exists\<close>,
    \<open>Path.unlink\<close>, \<open>time.sleep\<close>, \<open>subprocess.run\<close>, \<open>shutil.rmtree\<close>, \<open>json.load\<close>, ...)
    and the functions it imports from \<open>common_utils\<close> and \<open>process_manager\<close> are the fields of
    a record \<open>'w os\<close> over an arbitrary world \<open>'w\<close>, so that every theorem holds for every
    behaviour of the platform;
  \<^item> each call that acts on the world, and each line that is printed, is appended to a trace.

  An exception is a value: a call on the platform returns the exception it raises, and every
  \<open>try\<close> of the source is a case distinction on that value. \<open>Path.exists\<close> and
  \<open>Path.is_dir\<close> may raise as well (\<open>pathlib\<close> passes on a \<open>PermissionError\<close> of the
  underlying \<open>stat\<close>): where the source calls them inside a \<open>try\<close> the handler takes the
  exception, and where it calls them outside any \<open>try\<close> the exception ends the function and
  its callers, so such a function returns \<open>Inl\<close> of the exception, with the state reached,
  or \<open>Inr\<close> of its value. The print functions and
  \<open>ProcessManager.find_processes_using_file\<close> are taken to return without raising, and
  \<open>Path.iterdir\<close> to list the directory when the loop over it starts.
\<close>

subsection \<open>Data\<close>

text \<open>A \<open>pathlib.Path\<close> is the list of its components.\<close>

type_synonym path = "string list"

definition parent :: "path \<Rightarrow> path" where
  "parent p = butlast p"

definition joinpath :: "path \<Rightarrow> string \<Rightarrow> path" where
  "joinpath p n = p @ [n]"

definition name_of :: "path \<Rightarrow> string" where
  "name_of p = (if p = [] then [] else last p)"

text \<open>
  Exceptions. \<open>PermissionError\<close> is an \<open>OSError\<close> whose \<open>errno\<close> is 13 (or 1);
  \<open>errno\<close> may be \<open>None\<close>. \<open>json.JSONDecodeError\<close> is kept apart because the module
  catches it by name.
\<close>

datatype exn = OSError "int option" | JSONDecodeError | OtherException string

text \<open>The value \<open>json.load\<close> returns. A float is opaque to this module and kept as its text.\<close>

datatype json =
    JNull
  | JBool bool
  | JInt int
  | JFloat string
  | JStr string
  | JList "json list"
  | JDict "(string \<times> json) list"

text \<open>A process reported by \<open>ProcessManager.find_processes_using_file\<close>.\<close>

datatype proc = Proc (pid: nat) (pname: string)

text \<open>
  \<open>IDEType\<close> is declared in \<open>common_utils\<close>; this module names two of its members and treats
  all others alike.
\<close>

datatype ide_type = VSCODE | VSCODE_INSIDERS | OtherIDE string

text \<open>The command lines handed to \<open>subprocess.run\<close>, by what they run.\<close>

datatype command =
    Taskkill nat
  | KillKILL nat
  | DelFQ path
  | PowerShellRemoveItem path
  | AttribThenDel path

text \<open>
  The trace. A printed line is its level, the message template (in English) and the values
  formatted into it.
\<close>

datatype level = LInfo | LSuccess | LWarning | LError

datatype arg = APath path | AExn exn | ANum int | AStr string | AJson json | AProc proc
  | AIde ide_type | ANone

datatype event =
    Log level string "arg list"
  | Sleep nat
  | Unlink path
  | Chmod path nat
  | Run command
  | FindHolders path
  | Rmtree path bool
  | Backup path
  | ReadJson path
  | WriteJson path json

record 'w st =
  world :: 'w
  trace :: "event list"

text \<open>
  The platform. \<open>None\<close> as the first component of a result means that the call returned
  without raising. \<open>iterdir\<close> gives the entries the iterator yields and the exception that
  ends the iteration, if one does. \<open>create_backup\<close> is \<open>common_utils.create_backup\<close>: it
  returns the path of the copy or \<open>None\<close>. \<open>get_ide_paths\<close> is
  \<open>common_utils.get_ide_paths\<close>: a dictionary, as an association list, or \<open>None\<close>.
  \<open>json_dumps\<close> is \<open>json.dumps(item, ensure_ascii=False)\<close> and \<open>py_str\<close> is \<open>str(item)\<close>.
\<close>

record 'w os =
  os_name :: string
  path_exists :: "'w \<Rightarrow> path \<Rightarrow> exn + bool"
  path_is_dir :: "'w \<Rightarrow> path \<Rightarrow> exn + bool"
  unlink :: "path \<Rightarrow> 'w \<Rightarrow> exn option \<times> 'w"
  chmod :: "path \<Rightarrow> nat \<Rightarrow> 'w \<Rightarrow> exn option \<times> 'w"
  sleep :: "nat \<Rightarrow> 'w \<Rightarrow> 'w"
  run :: "command \<Rightarrow> 'w \<Rightarrow> exn option \<times> 'w"
  find_processes_using_file :: "path \<Rightarrow> 'w \<Rightarrow> proc list \<times> 'w"
  iterdir :: "path \<Rightarrow> 'w \<Rightarrow> path list \<times> exn option"
  rmtree :: "path \<Rightarrow> bool \<Rightarrow> 'w \<Rightarrow> exn option \<times> 'w"
  read_json :: "path \<Rightarrow> 'w \<Rightarrow> exn + json"
  write_json :: "path \<Rightarrow> json \<Rightarrow> 'w \<Rightarrow> exn option \<times> 'w"
  create_backup :: "path \<Rightarrow> 'w \<Rightarrow> (exn + path option) \<times> 'w"
  get_ide_paths :: "ide_type \<Rightarrow> 'w \<Rightarrow> (string \<times> path) list option"
  json_dumps :: "json \<Rightarrow> string"
  py_str :: "json \<Rightarrow> string"

subsection \<open>Calls on the platform, recorded in the trace\<close>

definition emit :: "event \<Rightarrow> 'w st \<Rightarrow> 'w st" where
  "emit e s = s\<lparr>trace := trace s @ [e]\<rparr>"

definition print_info :: "string \<Rightarrow> arg list \<Rightarrow> 'w st \<Rightarrow> 'w st" where
  "print_info m as = emit (Log LInfo m as)"

definition print_success :: "string \<Rightarrow> arg list \<Rightarrow> 'w st \<Rightarrow> 'w st" where
  "print_success m as = emit (Log LSuccess m as)"

definition print_warning :: "string \<Rightarrow> arg list \<Rightarrow> 'w st \<Rightarrow> 'w st" where
  "print_warning m as = emit (Log LWarning m as)"

definition print_error :: "string \<Rightarrow> arg list \<Rightarrow> 'w st \<Rightarrow> 'w st" where
  "print_error m as = emit (Log LError m as)"

definition do_unlink :: "'w os \<Rightarrow> path \<Rightarrow> 'w st \<Rightarrow> exn option \<times> 'w st" where
  "do_unlink os p s =
     (case unlink os p (world s) of (r, w) \<Rightarrow> (r, emit (Unlink p) (s\<lparr>world := w\<rparr>)))"

definition do_chmod :: "'w os \<Rightarrow> path \<Rightarrow> nat \<Rightarrow> 'w st \<Rightarrow> exn option \<times> 'w st" where
  "do_chmod os p m s =
     (case chmod os p m (world s) of (r, w) \<Rightarrow> (r, emit (Chmod p m) (s\<lparr>world := w\<rparr>)))"

definition do_sleep :: "'w os \<Rightarrow> nat \<Rightarrow> 'w st \<Rightarrow> 'w st" where
  "do_sleep os n s = emit (Sleep n) (s\<lparr>world := sleep os n (world s)\<rparr>)"

definition do_run :: "'w os \<Rightarrow> command \<Rightarrow> 'w st \<Rightarrow> exn option \<times> 'w st" where
  "do_run os c s =
     (case run os c (world s) of (r, w) \<Rightarrow> (r, emit (Run c) (s\<lparr>world := w\<rparr>)))"

definition do_find_processes :: "'w os \<Rightarrow> path \<Rightarrow> 'w st \<Rightarrow> proc list \<times> 'w st" where
  "do_find_processes os p s =
     (case find_processes_using_file os p (world s) of
        (ps, w) \<Rightarrow> (ps, emit (FindHolders p) (s\<lparr>world := w\<rparr>)))"

text \<open>
  \<open>shutil.rmtree(path, ignore_errors=True)\<close> swallows the errors of the walk and returns;
  without the flag the first error is raised.
\<close>

definition do_rmtree :: "'w os \<Rightarrow> path \<Rightarrow> bool \<Rightarrow> 'w st \<Rightarrow> exn option \<times> 'w st" where
  "do_rmtree os p ignore_errors s =
     (case rmtree os p ignore_errors (world s) of
        (r, w) \<Rightarrow> (if ignore_errors then None else r,
                   emit (Rmtree p ignore_errors) (s\<lparr>world := w\<rparr>)))"

definition do_read_json :: "'w os \<Rightarrow> path \<Rightarrow> 'w st \<Rightarrow> (exn + json) \<times> 'w st" where
  "do_read_json os p s = (read_json os p (world s), emit (ReadJson p) s)"

definition do_write_json :: "'w os \<Rightarrow> path \<Rightarrow> json \<Rightarrow> 'w st \<Rightarrow> exn option \<times> 'w st" where
  "do_write_json os p d s =
     (case write_json os p d (world s) of
        (r, w) \<Rightarrow> (r, emit (WriteJson p d) (s\<lparr>world := w\<rparr>)))"

definition do_create_backup :: "'w os \<Rightarrow> path \<Rightarrow> 'w st \<Rightarrow> (exn + path option) \<times> 'w st" where
  "do_create_backup os p s =
     (case create_backup os p (world s) of
        (r, w) \<Rightarrow> (r, emit (Backup p) (s\<lparr>world := w\<rparr>)))"

subsection \<open>The escalating delete\<close>

definition TARGET_FILES :: "string list" where
  "TARGET_FILES = [''state.vscdb'', ''state.vscdb.backup'']"

text \<open>\<open>_kill_occupying_processes\<close>: one kill command per process; a failure is a warning.\<close>

fun kill_occupying_processes :: "'w os \<Rightarrow> proc list \<Rightarrow> 'w st \<Rightarrow> 'w st" where
  "kill_occupying_processes os [] s = s"
| "kill_occupying_processes os (p # ps) s =
     (case do_run os (if os_name os = ''nt'' then Taskkill (pid p) else KillKILL (pid p)) s of
        (None, s1) \<Rightarrow>
          kill_occupying_processes os ps
            (print_info ''terminated holder process PID'' [ANum (int (pid p))] s1)
      | (Some e, s1) \<Rightarrow>
          kill_occupying_processes os ps
            (print_warning ''cannot terminate process'' [ANum (int (pid p)), AExn e] s1))"

text \<open>The three methods of \<open>_windows_force_delete\<close>, in the order of the source.\<close>

definition windows_methods :: "path \<Rightarrow> (string \<times> command) list" where
  "windows_methods file_path =
     [(''del command'', DelFQ file_path),
      (''PowerShell Remove-Item'', PowerShellRemoveItem file_path),
      (''attrib + del'', AttribThenDel file_path)]"

text \<open>
  The loop over the methods. The result \<open>True\<close> is the \<open>return True\<close> inside the loop; after
  a command has run, the path is looked up, whatever the command reported. The lookup stands
  inside the \<open>try\<close>: when it raises, the handler prints the warning and the loop goes on.
\<close>

fun try_methods :: "'w os \<Rightarrow> path \<Rightarrow> (string \<times> command) list \<Rightarrow> 'w st \<Rightarrow> bool \<times> 'w st" where
  "try_methods os file_path [] s = (False, s)"
| "try_methods os file_path (m # ms) s =
     (case do_run os (snd m) (print_info ''trying to delete the file with'' [AStr (fst m)] s) of
        (Some e, s1) \<Rightarrow>
          try_methods os file_path ms (print_warning ''method failed'' [AStr (fst m), AExn e] s1)
      | (None, s1) \<Rightarrow>
          (case path_exists os (world s1) file_path of
             Inl e \<Rightarrow>
               try_methods os file_path ms
                 (print_warning ''method failed'' [AStr (fst m), AExn e] s1)
           | Inr present \<Rightarrow>
               if \<not> present
               then (True, print_success ''forced delete succeeded with''
                             [AStr (fst m), APath file_path] s1)
               else try_methods os file_path ms s1))"

definition windows_force_delete :: "'w os \<Rightarrow> path \<Rightarrow> 'w st \<Rightarrow> bool \<times> 'w st" where
  "windows_force_delete os file_path s =
     (case try_methods os file_path (windows_methods file_path) s of
        (True, s1) \<Rightarrow> (True, s1)
      | (False, s1) \<Rightarrow>
          (case do_unlink os file_path
                  (do_sleep os 5 (print_info ''waiting 5 seconds before the last attempt'' [] s1)) of
             (None, s2) \<Rightarrow> (True, print_success ''final delete succeeded'' [APath file_path] s2)
           | (Some e, s2) \<Rightarrow>
               (False,
                print_info ''the file may be locked by a system process, retry after a restart'' []
                  (print_error ''final error'' [AExn e]
                    (print_error ''final delete failed'' [APath file_path] s2)))))"

definition unix_force_delete :: "'w os \<Rightarrow> path \<Rightarrow> 'w st \<Rightarrow> bool \<times> 'w st" where
  "unix_force_delete os file_path s =
     (case do_chmod os file_path 511 s of
        (Some e, s1) \<Rightarrow> (False, print_error ''forced delete failed'' [APath file_path, AExn e] s1)
      | (None, s1) \<Rightarrow>
          (case do_unlink os file_path s1 of
             (Some e, s2) \<Rightarrow>
               (False, print_error ''forced delete failed'' [APath file_path, AExn e] s2)
           | (None, s2) \<Rightarrow> (True, print_success ''forced delete succeeded'' [APath file_path] s2)))"

text \<open>
  Step 3 of \<open>_force_delete_file\<close>: on Windows, look for the processes that hold the file; when
  there are some, kill them, wait and delete again. \<open>True\<close> is the \<open>return True\<close> of that
  step; \<open>False\<close> means that control reaches step 4.
\<close>

definition kill_holders_and_retry :: "'w os \<Rightarrow> path \<Rightarrow> 'w st \<Rightarrow> bool \<times> 'w st" where
  "kill_holders_and_retry os file_path s =
     (if os_name os = ''nt'' then
        (case do_find_processes os file_path s of
           (occupying_processes, s1) \<Rightarrow>
             if occupying_processes \<noteq> [] then
               (case do_unlink os file_path
                       (do_sleep os 2
                         (kill_occupying_processes os occupying_processes
                           (fold (\<lambda>p. print_info ''  holder'' [AProc p]) occupying_processes
                             (print_info ''found processes holding the file''
                                [ANum (int (length occupying_processes))] s1)))) of
                  (None, s2) \<Rightarrow>
                    (True, print_success ''deleted after terminating the holders'' [APath file_path] s2)
                | (Some e, s2) \<Rightarrow> (False, s2))
             else (False, s1))
      else (False, s))"

definition force_delete_file :: "'w os \<Rightarrow> path \<Rightarrow> 'w st \<Rightarrow> bool \<times> 'w st" where
  "force_delete_file os file_path s =
     (case do_unlink os file_path (do_sleep os 1 s) of
        (None, s1) \<Rightarrow> (True, print_success ''delayed delete succeeded'' [APath file_path] s1)
      | (Some e, s1) \<Rightarrow>
          (case kill_holders_and_retry os file_path
                  (print_info ''plain delete still fails, looking for holder processes'' [] s1) of
             (True, s2) \<Rightarrow> (True, s2)
           | (False, s2) \<Rightarrow>
               if os_name os = ''nt'' then windows_force_delete os file_path s2
               else unix_force_delete os file_path s2))"

text \<open>
  \<open>safe_delete_file\<close>. The lookup of the path in its first line stands outside the
  \<open>try\<close>. \<open>_force_delete_file\<close> raises nothing, so its result is returned as it is.
\<close>

definition safe_delete_file ::
  "'w os \<Rightarrow> path \<Rightarrow> bool \<Rightarrow> 'w st \<Rightarrow> (exn + bool) \<times> 'w st" where
  "safe_delete_file os file_path force_mode s =
     (case path_exists os (world s) file_path of
        Inl e \<Rightarrow> (Inl e, s)
      | Inr present \<Rightarrow>
          if \<not> present then (Inr False, s)
          else
            (case do_unlink os file_path (print_info ''trying to delete'' [APath file_path] s) of
               (None, s1) \<Rightarrow> (Inr True, print_success ''deleted'' [APath file_path] s1)
             | (Some e, s1) \<Rightarrow>
                 (case e of
                    OSError errno \<Rightarrow>
                      if errno \<in> {Some 13, Some 32} then
                        (if force_mode then
                           apfst Inr
                             (force_delete_file os file_path
                               (print_info ''force mode enabled, waiting before the retry'' []
                                 (print_warning ''error'' [AExn e]
                                   (print_warning ''delete failed'' [APath file_path] s1))))
                         else
                           (Inr False,
                            print_info ''force mode can be tried'' []
                              (print_warning ''error'' [AExn e]
                                (print_warning ''delete failed'' [APath file_path] s1))))
                      else (Inr False, print_error ''delete failed'' [APath file_path, AExn e] s1)
                  | _ \<Rightarrow>
                      (Inr False, print_error ''delete failed'' [APath file_path, AExn e] s1))))"

subsection \<open>Cleaning the storage directories\<close>



text \<open>
  The inner loop of \<open>_clean_workspace_storage\<close>, with its two counters
  \<open>(deleted_in_workspace, total_deleted)\<close>, and the outer loop over the entries, with
  \<open>(total_deleted, workspaces_processed)\<close>. Both stand inside the \<open>try\<close> of the function:
  an exception of \<open>is_dir\<close> or of \<open>safe_delete_file\<close> ends the loops and reaches its handler.
\<close>

fun delete_in_workspace ::
  "'w os \<Rightarrow> path \<Rightarrow> bool \<Rightarrow> string list \<Rightarrow> int \<times> int \<Rightarrow> 'w st
     \<Rightarrow> (exn + int \<times> int) \<times> 'w st" where
  "delete_in_workspace os dir force_mode [] c s = (Inr c, s)"
| "delete_in_workspace os dir force_mode (file_name # rest) c s =
     (case safe_delete_file os (joinpath dir file_name) force_mode s of
        (Inl e, s1) \<Rightarrow> (Inl e, s1)
      | (Inr deleted, s1) \<Rightarrow>
          delete_in_workspace os dir force_mode rest
            (if deleted then (fst c + 1, snd c + 1) else c) s1)"

fun workspace_loop ::
  "'w os \<Rightarrow> bool \<Rightarrow> path list \<Rightarrow> int \<times> int \<Rightarrow> 'w st \<Rightarrow> (exn + int \<times> int) \<times> 'w st" where
  "workspace_loop os force_mode [] c s = (Inr c, s)"
| "workspace_loop os force_mode (workspace_dir # rest) c s =
     (case path_is_dir os (world s) workspace_dir of
        Inl e \<Rightarrow> (Inl e, s)
      | Inr is_dir \<Rightarrow>
          if is_dir then
            (case delete_in_workspace os workspace_dir force_mode TARGET_FILES (0, fst c)
                    (print_info ''checking workspace'' [AStr (name_of workspace_dir)] s) of
               (Inl e, s1) \<Rightarrow> (Inl e, s1)
             | (Inr (deleted_in_workspace, total_deleted), s1) \<Rightarrow>
                 workspace_loop os force_mode rest
                   (total_deleted, if deleted_in_workspace > 0 then snd c + 1 else snd c) s1)
          else workspace_loop os force_mode rest c s)"

definition clean_workspace_storage ::
  "'w os \<Rightarrow> path \<Rightarrow> bool \<Rightarrow> 'w st \<Rightarrow> (exn + int) \<times> 'w st" where
  "clean_workspace_storage os workspace_storage_path force_mode s =
     (case path_exists os (world s) workspace_storage_path of
        Inl e \<Rightarrow> (Inl e, print_info ''cleaning workspaceStorage'' [] s)
      | Inr present \<Rightarrow>
          if \<not> present
          then (Inr 0,
                print_error ''workspaceStorage directory does not exist''
                  [APath workspace_storage_path]
                  (print_info ''cleaning workspaceStorage'' [] s))
          else
            (case iterdir os workspace_storage_path (world s) of
               (entries, fault) \<Rightarrow>
                 (case workspace_loop os force_mode entries (0, 0)
                         (print_info ''cleaning workspaceStorage'' [] s) of
                    (Inl e, s1) \<Rightarrow>
                      (Inr 0,
                       print_error ''failed to read the workspaceStorage directory'' [AExn e] s1)
                  | (Inr (total_deleted, workspaces_processed), s1) \<Rightarrow>
                      (case fault of
                         Some e \<Rightarrow>
                           (Inr 0,
                            print_error ''failed to read the workspaceStorage directory''
                              [AExn e] s1)
                       | None \<Rightarrow>
                           (Inr total_deleted,
                            print_info ''  - files deleted'' [ANum total_deleted]
                              (print_info ''  - workspaces processed'' [ANum workspaces_processed]
                                (print_success ''workspaceStorage cleaned'' [] s1)))))))"

subsection \<open>Removing directory trees\<close>


subsection \<open>The marker\<close>

definition lower_char :: "char \<Rightarrow> char" where
  "lower_char c =
     (if 65 \<le> (of_char c :: nat) \<and> (of_char c :: nat) \<le> 90
      then char_of ((of_char c :: nat) + 32) else c)"

definition lower :: "string \<Rightarrow> string" where
  "lower s = map lower_char s"

text \<open>\<open>needle in haystack\<close> on strings.\<close>

fun contains :: "string \<Rightarrow> string \<Rightarrow> bool" where
  "contains needle [] = (needle = [])"
| "contains needle (c # cs) =
     (take (length needle) (c # cs) = needle \<or> contains needle cs)"

text \<open>
  The test of the filter loop: a dictionary is serialised with \<open>json.dumps\<close>, anything else
  with \<open>str\<close>; the lowered text is searched for the marker.
\<close>

definition is_marked :: "'w os \<Rightarrow> json \<Rightarrow> bool" where
  "is_marked os item =
     (case item of
        JDict kvs \<Rightarrow> contains ''augment'' (lower (json_dumps os item))
      | _ \<Rightarrow> contains ''augment'' (lower (py_str os item)))"

subsection \<open>The extensions manifest\<close>

text \<open>The filter loop, with its two lists \<open>(filtered_data, removed_items)\<close>.\<close>

fun partition_items :: "'w os \<Rightarrow> json list \<Rightarrow> json list \<times> json list \<Rightarrow> json list \<times> json list" where
  "partition_items os [] acc = acc"
| "partition_items os (item # rest) acc =
     (case item of
        JDict kvs \<Rightarrow>
          (if contains ''augment'' (lower (json_dumps os item))
           then partition_items os rest (fst acc, snd acc @ [item])
           else partition_items os rest (fst acc @ [item], snd acc))
      | _ \<Rightarrow>
          (if \<not> contains ''augment'' (lower (py_str os item))
           then partition_items os rest (fst acc @ [item], snd acc)
           else partition_items os rest (fst acc, snd acc @ [item])))"

text \<open>The two handlers at the end of \<open>_clean_extensions_json\<close>.\<close>

definition json_handler :: "exn \<Rightarrow> 'w st \<Rightarrow> 'w st" where
  "json_handler e s =
     (case e of
        JSONDecodeError \<Rightarrow> print_error ''extensions.json is malformed'' [AExn e] s
      | _ \<Rightarrow> print_error ''error while processing extensions.json'' [AExn e] s)"

definition clean_extensions_json :: "'w os \<Rightarrow> path \<Rightarrow> bool \<Rightarrow> 'w st \<Rightarrow> int \<times> 'w st" where
  "clean_extensions_json os extensions_json_path force_mode s =
     (case do_create_backup os extensions_json_path
             (print_info ''processing extensions.json'' [APath extensions_json_path] s) of
        (Inl e, s1) \<Rightarrow> (0, json_handler e s1)
      | (Inr None, s1) \<Rightarrow>
          (0, print_error ''cannot back up extensions.json, cleaning skipped'' [] s1)
      | (Inr (Some backup_path), s1) \<Rightarrow>
          (case do_read_json os extensions_json_path s1 of
             (Inl e, s2) \<Rightarrow> (0, json_handler e s2)
           | (Inr data, s2) \<Rightarrow>
               (case data of
                  JList items \<Rightarrow>
                    (case partition_items os items ([], []) of
                       (filtered_data, removed_items) \<Rightarrow>
                         if removed_items \<noteq> [] then
                           (case do_write_json os extensions_json_path (JList filtered_data)
                                   (fold (\<lambda>item. print_info ''  - '' [AJson item]) removed_items
                                     (print_info ''augment entries removed from extensions.json''
                                        [ANum (int (length removed_items))] s2)) of
                              (Some e, s3) \<Rightarrow> (0, json_handler e s3)
                            | (None, s3) \<Rightarrow>
                                (1, print_success ''extensions.json cleaned, backup at''
                                      [APath backup_path] s3))
                         else
                           (case do_unlink os backup_path
                                   (print_info ''no augment entry found in extensions.json'' [] s2) of
                              (Some e, s3) \<Rightarrow> (0, json_handler e s3)
                            | (None, s3) \<Rightarrow> (0, s3)))
                | _ \<Rightarrow>
                    (0, print_warning ''extensions.json is not the expected array'' [] s2))))"

subsection \<open>The profile directory\<close>







subsection \<open>The top-level cleanup\<close>








subsection \<open>A small platform for running the functions\<close>

text \<open>
  A file system with regular files (a file holds a JSON value, or text that does not parse),
  directories, files whose removal is refused with a given \<open>errno\<close>, directories whose
  listing raises after the entries, paths whose lookup raises \<open>PermissionError\<close>, and the
  processes holding a file. Commands and kills
  return and change nothing; sleeping changes nothing. It is one behaviour of the platform
  among all those the theorems cover, used to run the functions on concrete inputs.
\<close>

record sim_world =
  files :: "(path \<times> json option) list"
  dirs :: "path list"
  denied :: "(path \<times> int) list"
  broken :: "path list"
  holders :: "(path \<times> proc list) list"
  unreadable :: "path list"
  backups :: bool
  ide_paths :: "(string \<times> path) list option"

definition under :: "path \<Rightarrow> path \<Rightarrow> bool" where
  "under p q = (take (length p) q = p)"

definition sim_present :: "sim_world \<Rightarrow> path \<Rightarrow> bool" where
  "sim_present w p = (p \<in> set (map fst (files w)) \<or> p \<in> set (dirs w))"

definition sim_exists :: "sim_world \<Rightarrow> path \<Rightarrow> exn + bool" where
  "sim_exists w p =
     (if p \<in> set (unreadable w) then Inl (OSError (Some 13)) else Inr (sim_present w p))"

definition sim_is_dir :: "sim_world \<Rightarrow> path \<Rightarrow> exn + bool" where
  "sim_is_dir w p =
     (if p \<in> set (unreadable w) then Inl (OSError (Some 13)) else Inr (p \<in> set (dirs w)))"

definition sim_unlink :: "path \<Rightarrow> sim_world \<Rightarrow> exn option \<times> sim_world" where
  "sim_unlink p w =
     (case map_of (denied w) p of
        Some n \<Rightarrow> (Some (OSError (Some n)), w)
      | None \<Rightarrow>
          if p \<in> set (map fst (files w))
          then (None, w\<lparr>files := filter (\<lambda>f. fst f \<noteq> p) (files w)\<rparr>)
          else (Some (OSError (Some 2)), w))"

definition sim_chmod :: "path \<Rightarrow> nat \<Rightarrow> sim_world \<Rightarrow> exn option \<times> sim_world" where
  "sim_chmod p m w = (if sim_present w p then (None, w) else (Some (OSError (Some 2)), w))"

definition sim_find :: "path \<Rightarrow> sim_world \<Rightarrow> proc list \<times> sim_world" where
  "sim_find p w = (case map_of (holders w) p of Some ps \<Rightarrow> (ps, w) | None \<Rightarrow> ([], w))"

definition sim_iterdir :: "path \<Rightarrow> sim_world \<Rightarrow> path list \<times> exn option" where
  "sim_iterdir p w =
     (filter (\<lambda>q. q \<noteq> [] \<and> butlast q = p) (dirs w @ map fst (files w)),
      if p \<in> set (broken w) then Some (OSError (Some 5)) else None)"

definition sim_rmtree :: "path \<Rightarrow> bool \<Rightarrow> sim_world \<Rightarrow> exn option \<times> sim_world" where
  "sim_rmtree p ignore_errors w =
     (if list_ex (\<lambda>d. under p (fst d)) (denied w) then (Some (OSError (Some 13)), w)
      else (None, w\<lparr>files := filter (\<lambda>f. \<not> under p (fst f)) (files w),
                     dirs := filter (\<lambda>d. \<not> under p d) (dirs w)\<rparr>))"

definition sim_read :: "path \<Rightarrow> sim_world \<Rightarrow> exn + json" where
  "sim_read p w =
     (case map_of (files w) p of
        None \<Rightarrow> Inl (OSError (Some 2))
      | Some None \<Rightarrow> Inl JSONDecodeError
      | Some (Some j) \<Rightarrow> Inr j)"

definition sim_write :: "path \<Rightarrow> json \<Rightarrow> sim_world \<Rightarrow> exn option \<times> sim_world" where
  "sim_write p j w = (None, w\<lparr>files := (p, Some j) # filter (\<lambda>f. fst f \<noteq> p) (files w)\<rparr>)"

definition bak :: "path \<Rightarrow> path" where
  "bak p = butlast p @ [name_of p @ ''.bak'']"

definition sim_backup :: "path \<Rightarrow> sim_world \<Rightarrow> (exn + path option) \<times> sim_world" where
  "sim_backup p w =
     (case map_of (files w) p of
        Some c \<Rightarrow>
          if backups w then (Inr (Some (bak p)), w\<lparr>files := (bak p, c) # files w\<rparr>)
          else (Inr None, w)
      | None \<Rightarrow> (Inr None, w))"

text \<open>
  A plain rendering, enough for the marker to be found where a key or a string holds it:
  \<open>str\<close> of a string is the string itself, as in Python.
\<close>

primrec sim_dumps :: "json \<Rightarrow> string" where
  "sim_dumps JNull = ''null''"
| "sim_dumps (JBool b) = (if b then ''true'' else ''false'')"
| "sim_dumps (JInt i) = ''0''"
| "sim_dumps (JFloat f) = f"
| "sim_dumps (JStr t) = ''\"'' @ t @ ''\"''"
| "sim_dumps (JList xs) = ''['' @ concat (map sim_dumps xs) @ '']''"
| "sim_dumps (JDict kvs) =
     ''{'' @ concat (map (\<lambda>kv. ''\"'' @ fst kv @ ''\": '' @ snd kv) (map (map_prod id sim_dumps) kvs))
       @ ''}''"

definition sim_str :: "json \<Rightarrow> string" where
  "sim_str j = (case j of JStr t \<Rightarrow> t | _ \<Rightarrow> sim_dumps j)"

definition sim_os :: "string \<Rightarrow> sim_world os" where
  "sim_os name =
     \<lparr>os_name = name, path_exists = sim_exists, path_is_dir = sim_is_dir, unlink = sim_unlink,
      chmod = sim_chmod, sleep = (\<lambda>n w. w), run = (\<lambda>c w. (None, w)),
      find_processes_using_file = sim_find, iterdir = sim_iterdir, rmtree = sim_rmtree,
      read_json = sim_read, write_json = sim_write, create_backup = sim_backup,
      get_ide_paths = (\<lambda>i w. ide_paths w), json_dumps = sim_dumps, py_str = sim_str\<rparr>"

definition sim_world0 :: sim_world where
  "sim_world0 =
     \<lparr>files = [], dirs = [], denied = [], broken = [], holders = [], unreadable = [],
      backups = True,
      ide_paths = None\<rparr>"

definition start :: "'w \<Rightarrow> 'w st" where
  "start w = \<lparr>world = w, trace = []\<rparr>"

text \<open>Worlds used in the examples: a state file whose removal is refused, and held.\<close>

definition locked_world :: "int \<Rightarrow> sim_world" where
  "locked_world n =
     sim_world0\<lparr>files := [([''ws'', ''state.vscdb''], None)],
                denied := [([''ws'', ''state.vscdb''], n)]\<rparr>"

definition held_world :: sim_world where
  "held_world = (locked_world 13)\<lparr>holders := [([''ws'', ''state.vscdb''], [Proc 4711 ''Code.exe''])]\<rparr>"

text \<open>A profile with an extensions manifest, and two manifests.\<close>

definition manifest_path :: path where
  "manifest_path = [''profile'', ''extensions.json'']"

definition ext_record :: "string \<Rightarrow> json" where
  "ext_record ident = JDict [(''identifier'', JDict [(''id'', JStr ident)]), (''version'', JStr ''1.0.0'')]"

definition manifest_world :: "json option \<Rightarrow> sim_world" where
  "manifest_world content = sim_world0\<lparr>files := [(manifest_path, content)]\<rparr>"

definition clean_manifest :: json where
  "clean_manifest = JList [ext_record ''ms-python.python'', JStr ''github.copilot'']"

definition marked_manifest :: json where
  "marked_manifest =
     JList [ext_record ''ms-python.python'', ext_record ''Augment.vscode-augment'',
            JStr ''github.copilot'', JStr ''augment.old'', ext_record ''rust-lang.rust-analyzer'']"

text \<open>
  A workspace storage with one workspace holding a state file, and a profile whose history
  folder and augment extension each hold a file that cannot be removed.
\<close>

definition workspace_world :: "path list \<Rightarrow> sim_world" where
  "workspace_world faulty =
     sim_world0\<lparr>dirs := [[''workspaceStorage''], [''workspaceStorage'', ''1f3c'']],
                files := [([''workspaceStorage'', ''1f3c'', ''state.vscdb''], None)],
                broken := faulty\<rparr>"



text \<open>
  The profile with a backup that cannot be removed, and the user directory with a workspace
  storage root whose lookup raises.
\<close>

definition kept_backup_world :: sim_world where
  "kept_backup_world =
     (manifest_world (Some clean_manifest))\<lparr>denied := [(bak manifest_path, 13)]\<rparr>"



section \<open>Properties\<close>

lemmas io_defs = emit_def print_info_def print_success_def print_warning_def print_error_def
  do_unlink_def do_chmod_def do_sleep_def do_run_def do_find_processes_def do_rmtree_def
  do_read_json_def do_write_json_def do_create_backup_def

lemmas ladder_defs = safe_delete_file_def force_delete_file_def kill_holders_and_retry_def
  windows_force_delete_def unix_force_delete_def windows_methods_def

lemmas sim_defs = sim_os_def sim_present_def sim_exists_def sim_is_dir_def sim_unlink_def sim_chmod_def
  sim_find_def sim_iterdir_def sim_rmtree_def sim_read_def sim_write_def sim_backup_def
  bak_def sim_str_def sim_world0_def start_def under_def name_of_def parent_def joinpath_def

lemmas manifest_defs = manifest_path_def manifest_world_def ext_record_def clean_manifest_def
  marked_manifest_def is_marked_def lower_def lower_char_def

subsection \<open>The escalating delete\<close>

text \<open>
  C1, as the code has it. For a path that does not exist, \<open>safe_delete_file\<close> returns
  \<open>False\<close> and leaves the state as it was: nothing is printed (no warning, no error), the
  world is not touched, and no step of the escalation (sleep, retry, kill, forced command)
  runs, with or without force mode.
\<close>

theorem C1_absent_is_a_silent_no_op:
  "path_exists os (world s) file_path = Inr False \<Longrightarrow>
     safe_delete_file os file_path force_mode s = (Inr False, s)"
  by (simp add: safe_delete_file_def)

theorem C1_absent_is_a_silent_no_op_witness:
  "path_exists (sim_os ''posix'') (world (start sim_world0)) [''globalStorage'', ''state.vscdb'']
     = Inr False
   \<and> safe_delete_file (sim_os ''posix'') [''globalStorage'', ''state.vscdb''] True (start sim_world0)
       = (Inr False, start sim_world0)"
  using C1_absent_is_a_silent_no_op
    [of "sim_os ''posix''" "start sim_world0" "[''globalStorage'', ''state.vscdb'']" True]
  by (simp add: sim_defs)

text \<open>
  C1, as the claim has it, fails: the value returned for a path that does not exist is not
  the one a successful delete returns (\<open>True\<close>) but the one a failed delete returns
  (\<open>False\<close>). Below, the same call on an absent file, on a file whose removal fails with
  \<open>errno\<close> 5, and on a file that is removed.
\<close>

theorem C1_absent_returns_the_value_of_a_failure:
  "path_exists (sim_os ''posix'') sim_world0 [''state.vscdb''] = Inr False
   \<and> fst (safe_delete_file (sim_os ''posix'') [''state.vscdb''] False (start sim_world0)) = Inr False
   \<and> fst (safe_delete_file (sim_os ''posix'') [''state.vscdb''] False
        (start (sim_world0\<lparr>files := [([''state.vscdb''], None)],
                            denied := [([''state.vscdb''], 5)]\<rparr>))) = Inr False
   \<and> fst (safe_delete_file (sim_os ''posix'') [''state.vscdb''] False
        (start (sim_world0\<lparr>files := [([''state.vscdb''], None)]\<rparr>))) = Inr True"
  by (simp add: safe_delete_file_def io_defs sim_defs)

text \<open>
  C4. Let the direct delete of an existing path raise \<open>e\<close>. If \<open>e\<close> is not an \<open>OSError\<close>
  with \<open>errno\<close> 13 or 32, the call ends at once with one error line, whatever the force
  mode. If it is and force mode is off, the call ends after two warnings and the hint that
  force mode can be tried. Only if it is and force mode is on does the call go on into
  \<open>_force_delete_file\<close>. In the first two cases the trace holds no step of the escalation.
\<close>

theorem C4_escalation_gate:
  assumes "path_exists os (world s) p = Inr True"
    and "unlink os p (world s) = (Some e, w)"
  shows
    "(e \<notin> {OSError (Some 13), OSError (Some 32)} \<longrightarrow>
        safe_delete_file os p force_mode s =
          (Inr False, s\<lparr>world := w,
                     trace := trace s @
                       [Log LInfo ''trying to delete'' [APath p], Unlink p,
                        Log LError ''delete failed'' [APath p, AExn e]]\<rparr>))
     \<and> (e \<in> {OSError (Some 13), OSError (Some 32)} \<and> \<not> force_mode \<longrightarrow>
        safe_delete_file os p force_mode s =
          (Inr False, s\<lparr>world := w,
                     trace := trace s @
                       [Log LInfo ''trying to delete'' [APath p], Unlink p,
                        Log LWarning ''delete failed'' [APath p],
                        Log LWarning ''error'' [AExn e],
                        Log LInfo ''force mode can be tried'' []]\<rparr>))
     \<and> (e \<in> {OSError (Some 13), OSError (Some 32)} \<and> force_mode \<longrightarrow>
        safe_delete_file os p force_mode s =
          apfst Inr
            (force_delete_file os p
              (s\<lparr>world := w,
                 trace := trace s @
                   [Log LInfo ''trying to delete'' [APath p], Unlink p,
                    Log LWarning ''delete failed'' [APath p],
                    Log LWarning ''error'' [AExn e],
                    Log LInfo ''force mode enabled, waiting before the retry'' []]\<rparr>)))"
  using assms by (cases e) (auto simp: safe_delete_file_def io_defs)

theorem C4_escalation_gate_witness:
  "path_exists (sim_os ''nt'') (locked_world 5) [''ws'', ''state.vscdb''] = Inr True
   \<and> unlink (sim_os ''nt'') [''ws'', ''state.vscdb''] (locked_world 5)
       = (Some (OSError (Some 5)), locked_world 5)
   \<and> safe_delete_file (sim_os ''nt'') [''ws'', ''state.vscdb''] True (start (locked_world 5))
       = (Inr False, \<lparr>world = locked_world 5,
                  trace = [Log LInfo ''trying to delete'' [APath [''ws'', ''state.vscdb'']],
                           Unlink [''ws'', ''state.vscdb''],
                           Log LError ''delete failed''
                             [APath [''ws'', ''state.vscdb''], AExn (OSError (Some 5))]]\<rparr>)
   \<and> unlink (sim_os ''nt'') [''ws'', ''state.vscdb''] (locked_world 32)
       = (Some (OSError (Some 32)), locked_world 32)
   \<and> safe_delete_file (sim_os ''nt'') [''ws'', ''state.vscdb''] False (start (locked_world 32))
       = (Inr False, \<lparr>world = locked_world 32,
                  trace = [Log LInfo ''trying to delete'' [APath [''ws'', ''state.vscdb'']],
                           Unlink [''ws'', ''state.vscdb''],
                           Log LWarning ''delete failed'' [APath [''ws'', ''state.vscdb'']],
                           Log LWarning ''error'' [AExn (OSError (Some 32))],
                           Log LInfo ''force mode can be tried'' []]\<rparr>)
   \<and> unlink (sim_os ''nt'') [''ws'', ''state.vscdb''] (locked_world 13)
       = (Some (OSError (Some 13)), locked_world 13)
   \<and> safe_delete_file (sim_os ''nt'') [''ws'', ''state.vscdb''] True (start (locked_world 13))
       = apfst Inr
           (force_delete_file (sim_os ''nt'') [''ws'', ''state.vscdb'']
              \<lparr>world = locked_world 13,
               trace = [Log LInfo ''trying to delete'' [APath [''ws'', ''state.vscdb'']],
                        Unlink [''ws'', ''state.vscdb''],
                        Log LWarning ''delete failed'' [APath [''ws'', ''state.vscdb'']],
                        Log LWarning ''error'' [AExn (OSError (Some 13))],
                        Log LInfo ''force mode enabled, waiting before the retry'' []]\<rparr>)"
proof -
  let ?p = "[''ws'', ''state.vscdb'']"
  have ex: "path_exists (sim_os ''nt'') (world (start (locked_world n))) ?p = Inr True" for n
    by (simp add: sim_defs locked_world_def)
  have un: "unlink (sim_os ''nt'') ?p (world (start (locked_world n)))
              = (Some (OSError (Some n)), locked_world n)" for n
    by (simp add: sim_defs locked_world_def)
  note a = C4_escalation_gate [OF ex un, of 5 True]
  note b = C4_escalation_gate [OF ex un, of 32 False]
  note c = C4_escalation_gate [OF ex un, of 13 True]
  show ?thesis
    using a b c ex [of 5] un by (simp add: start_def)
qed

text \<open>
  C2, as the code has it. Let the delayed retry fail and the holder step not delete the file.
  On Windows, when the three forced commands leave the path in place and the last delete
  raises \<open>e\<close>, the call has slept 5, tried the delete once more, and ends with failure, the
  error \<open>e\<close> and the restart hint. On any other platform the last step is a \<open>chmod\<close> to
  \<open>0o777\<close> and one delete, in one \<open>try\<close>: on failure the call ends with failure and the
  error, with no further sleep, no later attempt and no restart hint.
\<close>

theorem C2_final_retry_on_windows_only:
  assumes "do_unlink os p (do_sleep os 1 s) = (Some e1, s1)"
    and "kill_holders_and_retry os p
           (print_info ''plain delete still fails, looking for holder processes'' [] s1)
         = (False, s2)"
  shows
    "(os_name os = ''nt'' \<and> try_methods os p (windows_methods p) s2 = (False, s3)
        \<and> unlink os p (sleep os 5 (world s3)) = (Some e, w) \<longrightarrow>
      force_delete_file os p s =
        (False, s3\<lparr>world := w,
                    trace := trace s3 @
                      [Log LInfo ''waiting 5 seconds before the last attempt'' [],
                       Sleep 5, Unlink p,
                       Log LError ''final delete failed'' [APath p],
                       Log LError ''final error'' [AExn e],
                       Log LInfo
                         ''the file may be locked by a system process, retry after a restart''
                         []]\<rparr>))
     \<and> (os_name os \<noteq> ''nt'' \<and> chmod os p 511 (world s2) = (None, w1)
          \<and> unlink os p w1 = (Some e, w) \<longrightarrow>
        force_delete_file os p s =
          (False, s2\<lparr>world := w,
                      trace := trace s2 @
                        [Chmod p 511, Unlink p,
                         Log LError ''forced delete failed'' [APath p, AExn e]]\<rparr>))
     \<and> (os_name os \<noteq> ''nt'' \<and> chmod os p 511 (world s2) = (Some e, w) \<longrightarrow>
        force_delete_file os p s =
          (False, s2\<lparr>world := w,
                      trace := trace s2 @
                        [Chmod p 511,
                         Log LError ''forced delete failed'' [APath p, AExn e]]\<rparr>))"
  using assms
  by (auto simp: force_delete_file_def windows_force_delete_def unix_force_delete_def
        do_unlink_def do_chmod_def do_sleep_def emit_def print_info_def print_error_def)

theorem C2_final_retry_on_windows_only_witness:
  "os_name (sim_os ''nt'') = ''nt''
   \<and> force_delete_file (sim_os ''nt'') [''ws'', ''state.vscdb''] (start held_world)
       = (False,
          \<lparr>world = held_world,
           trace =
             [Sleep 1,
              Unlink [''ws'', ''state.vscdb''],
              Log LInfo ''plain delete still fails, looking for holder processes'' [],
              FindHolders [''ws'', ''state.vscdb''],
              Log LInfo ''found processes holding the file'' [ANum 1],
              Log LInfo ''  holder'' [AProc (Proc 4711 ''Code.exe'')],
              Run (Taskkill 4711),
              Log LInfo ''terminated holder process PID'' [ANum 4711],
              Sleep 2,
              Unlink [''ws'', ''state.vscdb''],
              Log LInfo ''trying to delete the file with'' [AStr ''del command''],
              Run (DelFQ [''ws'', ''state.vscdb'']),
              Log LInfo ''trying to delete the file with'' [AStr ''PowerShell Remove-Item''],
              Run (PowerShellRemoveItem [''ws'', ''state.vscdb'']),
              Log LInfo ''trying to delete the file with'' [AStr ''attrib + del''],
              Run (AttribThenDel [''ws'', ''state.vscdb'']),
              Log LInfo ''waiting 5 seconds before the last attempt'' [],
              Sleep 5,
              Unlink [''ws'', ''state.vscdb''],
              Log LError ''final delete failed'' [APath [''ws'', ''state.vscdb'']],
              Log LError ''final error'' [AExn (OSError (Some 13))],
              Log LInfo ''the file may be locked by a system process, retry after a restart''
                []]\<rparr>)
   \<and> os_name (sim_os ''posix'') \<noteq> ''nt''
   \<and> force_delete_file (sim_os ''posix'') [''ws'', ''state.vscdb''] (start held_world)
       = (False,
          \<lparr>world = held_world,
           trace =
             [Sleep 1,
              Unlink [''ws'', ''state.vscdb''],
              Log LInfo ''plain delete still fails, looking for holder processes'' [],
              Chmod [''ws'', ''state.vscdb''] 511,
              Unlink [''ws'', ''state.vscdb''],
              Log LError ''forced delete failed''
                [APath [''ws'', ''state.vscdb''], AExn (OSError (Some 13))]]\<rparr>)"
proof -
  let ?p = "[''ws'', ''state.vscdb'']"
  let ?s1 = "\<lparr>world = held_world, trace = [Sleep 1, Unlink ?p]\<rparr>"
  let ?s2 = "\<lparr>world = held_world,
              trace =
                [Sleep 1, Unlink ?p,
                 Log LInfo ''plain delete still fails, looking for holder processes'' [],
                 FindHolders ?p,
                 Log LInfo ''found processes holding the file'' [ANum 1],
                 Log LInfo ''  holder'' [AProc (Proc 4711 ''Code.exe'')],
                 Run (Taskkill 4711),
                 Log LInfo ''terminated holder process PID'' [ANum 4711],
                 Sleep 2, Unlink ?p]\<rparr>"
  let ?s3 = "?s2\<lparr>trace := trace ?s2 @
                [Log LInfo ''trying to delete the file with'' [AStr ''del command''],
                 Run (DelFQ ?p),
                 Log LInfo ''trying to delete the file with'' [AStr ''PowerShell Remove-Item''],
                 Run (PowerShellRemoveItem ?p),
                 Log LInfo ''trying to delete the file with'' [AStr ''attrib + del''],
                 Run (AttribThenDel ?p)]\<rparr>"
  let ?u2 = "\<lparr>world = held_world,
              trace =
                [Sleep 1, Unlink ?p,
                 Log LInfo ''plain delete still fails, looking for holder processes'' []]\<rparr>"
  have d: "do_unlink (sim_os os) ?p (do_sleep (sim_os os) 1 (start held_world))
             = (Some (OSError (Some 13)), ?s1)" for os
    by (simp add: io_defs sim_defs held_world_def locked_world_def)
  have k: "kill_holders_and_retry (sim_os ''nt'') ?p
             (print_info ''plain delete still fails, looking for holder processes'' [] ?s1)
           = (False, ?s2)"
    by (simp add: kill_holders_and_retry_def io_defs sim_defs held_world_def locked_world_def)
  have m: "try_methods (sim_os ''nt'') ?p (windows_methods ?p) ?s2 = (False, ?s3)"
    by (simp add: windows_methods_def io_defs sim_defs held_world_def locked_world_def)
  have f: "unlink (sim_os ''nt'') ?p (sleep (sim_os ''nt'') 5 (world ?s3))
             = (Some (OSError (Some 13)), held_world)"
    by (simp add: sim_defs held_world_def locked_world_def)
  have k': "kill_holders_and_retry (sim_os ''posix'') ?p
              (print_info ''plain delete still fails, looking for holder processes'' [] ?s1)
            = (False, ?u2)"
    by (simp add: kill_holders_and_retry_def io_defs sim_defs)
  have c: "chmod (sim_os ''posix'') ?p 511 (world ?u2) = (None, held_world)"
    by (simp add: sim_defs held_world_def locked_world_def)
  have u: "unlink (sim_os ''posix'') ?p held_world = (Some (OSError (Some 13)), held_world)"
    by (simp add: sim_defs held_world_def locked_world_def)
  note nt = C2_final_retry_on_windows_only
              [OF d k, where ?s3.0 = ?s3 and e = "OSError (Some 13)" and w = held_world]
  note px = C2_final_retry_on_windows_only
              [OF d k', where ?w1.0 = held_world and e = "OSError (Some 13)" and w = held_world]
  show ?thesis
    using nt px m f c u by (simp add: sim_os_def)
qed

text \<open>
  C2, as the claim has it, fails off Windows: with force mode on, every attempt on the file
  fails and the file is still there, yet the trace holds no sleep of 5 and no restart hint.
\<close>

theorem C2_no_final_retry_off_windows:
  "path_exists (sim_os ''posix'') (locked_world 13) [''ws'', ''state.vscdb''] = Inr True
   \<and> safe_delete_file (sim_os ''posix'') [''ws'', ''state.vscdb''] True (start (locked_world 13))
       = (Inr False,
          \<lparr>world = locked_world 13,
           trace =
             [Log LInfo ''trying to delete'' [APath [''ws'', ''state.vscdb'']],
              Unlink [''ws'', ''state.vscdb''],
              Log LWarning ''delete failed'' [APath [''ws'', ''state.vscdb'']],
              Log LWarning ''error'' [AExn (OSError (Some 13))],
              Log LInfo ''force mode enabled, waiting before the retry'' [],
              Sleep 1,
              Unlink [''ws'', ''state.vscdb''],
              Log LInfo ''plain delete still fails, looking for holder processes'' [],
              Chmod [''ws'', ''state.vscdb''] 511,
              Unlink [''ws'', ''state.vscdb''],
              Log LError ''forced delete failed''
                [APath [''ws'', ''state.vscdb''], AExn (OSError (Some 13))]]\<rparr>)
   \<and> path_exists (sim_os ''posix'')
        (world (snd (safe_delete_file (sim_os ''posix'') [''ws'', ''state.vscdb''] True
                       (start (locked_world 13)))))
        [''ws'', ''state.vscdb''] = Inr True
   \<and> Sleep 5 \<notin> set (trace (snd (safe_delete_file (sim_os ''posix'') [''ws'', ''state.vscdb''] True
                                    (start (locked_world 13)))))"
  by (simp add: ladder_defs io_defs sim_defs locked_world_def)

subsection \<open>The extensions manifest\<close>

text \<open>The filter loop is \<open>filter\<close>, twice; printing a list of lines appends them.\<close>

lemma partition_items_filter:
  "partition_items os items acc =
     (fst acc @ filter (\<lambda>i. \<not> is_marked os i) items, snd acc @ filter (is_marked os) items)"
  by (induction items arbitrary: acc) (auto simp: is_marked_def split: json.splits)

lemma fold_emit:
  "fold (\<lambda>item. emit (g item)) xs s = s\<lparr>trace := trace s @ map g xs\<rparr>"
  by (induction xs arbitrary: s) (simp_all add: emit_def)

lemma filter_marked_empty:
  "(\<forall>item\<in>set items. \<not> is_marked os item) \<Longrightarrow> filter (is_marked os) items = []"
  by (simp add: filter_empty_conv)

text \<open>
  C3, as the code has it. Let the backup be created, the manifest parse as a list, and no
  record be marked. Then \<open>_clean_extensions_json\<close> never writes the manifest and returns 0,
  and its last call on the platform is the removal of the backup it has just created. When
  that removal returns, the world at return is the one it leaves: the backup is gone as soon
  as the removal took it away. When the removal raises, the handler prints the error and the
  result is 0 all the same, with the world as the failed removal left it: a backup that is
  still there then stays.
\<close>

theorem C3_nothing_marked:
  assumes "create_backup os p (world s) = (Inr (Some backup_path), w1)"
    and "read_json os p w1 = Inr (JList items)"
    and "\<forall>item\<in>set items. \<not> is_marked os item"
  shows
    "(unlink os backup_path w1 = (None, w2) \<longrightarrow>
        clean_extensions_json os p force_mode s =
          (0, s\<lparr>world := w2,
                 trace := trace s @
                   [Log LInfo ''processing extensions.json'' [APath p], Backup p, ReadJson p,
                    Log LInfo ''no augment entry found in extensions.json'' [],
                    Unlink backup_path]\<rparr>))
     \<and> (unlink os backup_path w1 = (None, w2) \<and> path_exists os w2 backup_path = Inr False \<longrightarrow>
        path_exists os (world (snd (clean_extensions_json os p force_mode s))) backup_path
          = Inr False)
     \<and> (unlink os backup_path w1 = (Some e, w2) \<longrightarrow>
        clean_extensions_json os p force_mode s =
          (0, s\<lparr>world := w2,
                 trace := trace s @
                   [Log LInfo ''processing extensions.json'' [APath p], Backup p, ReadJson p,
                    Log LInfo ''no augment entry found in extensions.json'' [],
                    Unlink backup_path,
                    Log LError
                      (if e = JSONDecodeError then ''extensions.json is malformed''
                       else ''error while processing extensions.json'') [AExn e]]\<rparr>))
     \<and> (unlink os backup_path w1 = (Some e, w2) \<and> path_exists os w2 backup_path = Inr True \<longrightarrow>
        path_exists os (world (snd (clean_extensions_json os p force_mode s))) backup_path
          = Inr True)"
  using assms
  by (auto simp: clean_extensions_json_def partition_items_filter filter_marked_empty
        json_handler_def io_defs split: exn.splits)

theorem C3_nothing_marked_witness:
  "create_backup (sim_os ''nt'') manifest_path (manifest_world (Some clean_manifest))
     = (Inr (Some (bak manifest_path)),
        (manifest_world (Some clean_manifest))
          \<lparr>files := [(bak manifest_path, Some clean_manifest), (manifest_path, Some clean_manifest)]\<rparr>)
   \<and> clean_extensions_json (sim_os ''nt'') manifest_path False
        (start (manifest_world (Some clean_manifest)))
       = (0, \<lparr>world = manifest_world (Some clean_manifest),
              trace =
                [Log LInfo ''processing extensions.json'' [APath manifest_path],
                 Backup manifest_path, ReadJson manifest_path,
                 Log LInfo ''no augment entry found in extensions.json'' [],
                 Unlink (bak manifest_path)]\<rparr>)
   \<and> path_exists (sim_os ''nt'')
        (world (snd (clean_extensions_json (sim_os ''nt'') manifest_path False
                       (start (manifest_world (Some clean_manifest))))))
        (bak manifest_path) = Inr False
   \<and> clean_extensions_json (sim_os ''nt'') manifest_path False (start kept_backup_world)
       = (0, \<lparr>world =
                kept_backup_world
                  \<lparr>files := [(bak manifest_path, Some clean_manifest),
                              (manifest_path, Some clean_manifest)]\<rparr>,
              trace =
                [Log LInfo ''processing extensions.json'' [APath manifest_path],
                 Backup manifest_path, ReadJson manifest_path,
                 Log LInfo ''no augment entry found in extensions.json'' [],
                 Unlink (bak manifest_path),
                 Log LError ''error while processing extensions.json''
                   [AExn (OSError (Some 13))]]\<rparr>)
   \<and> path_exists (sim_os ''nt'')
        (world (snd (clean_extensions_json (sim_os ''nt'') manifest_path False
                       (start kept_backup_world))))
        (bak manifest_path) = Inr True"
proof -
  let ?os = "sim_os ''nt''"
  let ?items = "[ext_record ''ms-python.python'', JStr ''github.copilot'']"
  let ?w = "manifest_world (Some clean_manifest)"
  let ?w1 = "?w\<lparr>files := [(bak manifest_path, Some clean_manifest),
                            (manifest_path, Some clean_manifest)]\<rparr>"
  let ?k1 = "kept_backup_world\<lparr>files := [(bak manifest_path, Some clean_manifest),
                                            (manifest_path, Some clean_manifest)]\<rparr>"
  have b: "create_backup ?os manifest_path (world (start ?w)) = (Inr (Some (bak manifest_path)), ?w1)"
    by (simp add: sim_defs manifest_defs)
  have r: "read_json ?os manifest_path ?w1 = Inr (JList ?items)"
    by (simp add: sim_defs manifest_defs)
  have n: "\<forall>item\<in>set ?items. \<not> is_marked ?os item"
    by (simp add: sim_defs manifest_defs)
  have u: "unlink ?os (bak manifest_path) ?w1 = (None, ?w)"
    by (simp add: sim_defs manifest_defs)
  have x: "path_exists ?os ?w (bak manifest_path) = Inr False"
    by (simp add: sim_defs manifest_defs)
  have b': "create_backup ?os manifest_path (world (start kept_backup_world))
              = (Inr (Some (bak manifest_path)), ?k1)"
    by (simp add: sim_defs manifest_defs kept_backup_world_def)
  have r': "read_json ?os manifest_path ?k1 = Inr (JList ?items)"
    by (simp add: sim_defs manifest_defs kept_backup_world_def)
  have u': "unlink ?os (bak manifest_path) ?k1 = (Some (OSError (Some 13)), ?k1)"
    by (simp add: sim_defs manifest_defs kept_backup_world_def)
  have x': "path_exists ?os ?k1 (bak manifest_path) = Inr True"
    by (simp add: sim_defs manifest_defs kept_backup_world_def)
  show ?thesis
    using C3_nothing_marked [OF b r n, where ?w2.0 = ?w and force_mode = False]
      C3_nothing_marked [OF b' r' n, where ?w2.0 = ?k1 and e = "OSError (Some 13)"
                           and force_mode = False]
      b u x u' x'
    by (simp add: start_def)
qed

text \<open>
  C3, as the claim has it, fails where the platform refuses to remove the backup: the
  manifest parses as a list with no marked record, nothing is written and 0 is returned,
  yet the backup made for the call is still there at return.
\<close>

theorem C3_backup_stays_when_its_removal_fails:
  "read_json (sim_os ''nt'') manifest_path kept_backup_world
     = Inr (JList [ext_record ''ms-python.python'', JStr ''github.copilot''])
   \<and> \<not> is_marked (sim_os ''nt'') (ext_record ''ms-python.python'')
   \<and> \<not> is_marked (sim_os ''nt'') (JStr ''github.copilot'')
   \<and> path_exists (sim_os ''nt'') kept_backup_world (bak manifest_path) = Inr False
   \<and> clean_extensions_json (sim_os ''nt'') manifest_path False (start kept_backup_world)
       = (0, \<lparr>world =
                kept_backup_world
                  \<lparr>files := [(bak manifest_path, Some clean_manifest),
                              (manifest_path, Some clean_manifest)]\<rparr>,
              trace =
                [Log LInfo ''processing extensions.json'' [APath manifest_path],
                 Backup manifest_path, ReadJson manifest_path,
                 Log LInfo ''no augment entry found in extensions.json'' [],
                 Unlink (bak manifest_path),
                 Log LError ''error while processing extensions.json''
                   [AExn (OSError (Some 13))]]\<rparr>)
   \<and> path_exists (sim_os ''nt'')
        (world (snd (clean_extensions_json (sim_os ''nt'') manifest_path False
                       (start kept_backup_world))))
        (bak manifest_path) = Inr True"
  by (simp add: clean_extensions_json_def json_handler_def io_defs sim_defs manifest_defs
        kept_backup_world_def)

text \<open>
  C7. When \<open>create_backup\<close> returns \<open>None\<close>, \<open>_clean_extensions_json\<close> prints an error and
  returns 0: the manifest is neither read nor written, and the world at return is the one
  \<open>create_backup\<close> left. The same holds when \<open>create_backup\<close> raises.
\<close>

theorem C7_no_backup_no_mutation:
  "(create_backup os p (world s) = (Inr None, w1) \<longrightarrow>
      clean_extensions_json os p force_mode s =
        (0, s\<lparr>world := w1,
               trace := trace s @
                 [Log LInfo ''processing extensions.json'' [APath p], Backup p,
                  Log LError ''cannot back up extensions.json, cleaning skipped'' []]\<rparr>))
   \<and> (create_backup os p (world s) = (Inl e, w1) \<longrightarrow>
      clean_extensions_json os p force_mode s =
        (0, s\<lparr>world := w1,
               trace := trace s @
                 [Log LInfo ''processing extensions.json'' [APath p], Backup p,
                  Log LError
                    (if e = JSONDecodeError then ''extensions.json is malformed''
                     else ''error while processing extensions.json'') [AExn e]]\<rparr>))"
  by (auto simp: clean_extensions_json_def json_handler_def io_defs split: exn.splits)

theorem C7_no_backup_no_mutation_witness:
  "create_backup (sim_os ''nt'') manifest_path
      ((manifest_world (Some marked_manifest))\<lparr>backups := False\<rparr>)
     = (Inr None, (manifest_world (Some marked_manifest))\<lparr>backups := False\<rparr>)
   \<and> clean_extensions_json (sim_os ''nt'') manifest_path True
        (start ((manifest_world (Some marked_manifest))\<lparr>backups := False\<rparr>))
       = (0, \<lparr>world = (manifest_world (Some marked_manifest))\<lparr>backups := False\<rparr>,
              trace =
                [Log LInfo ''processing extensions.json'' [APath manifest_path],
                 Backup manifest_path,
                 Log LError ''cannot back up extensions.json, cleaning skipped'' []]\<rparr>)"
proof -
  let ?os = "sim_os ''nt''"
  let ?w = "(manifest_world (Some marked_manifest))\<lparr>backups := False\<rparr>"
  have b: "create_backup ?os manifest_path (world (start ?w)) = (Inr None, ?w)"
    by (simp add: sim_defs manifest_defs)
  show ?thesis
    using C7_no_backup_no_mutation [of ?os manifest_path "start ?w" ?w True] b
    by (simp add: start_def)
qed

text \<open>
  C9. Let the backup be created. When reading the manifest raises (a parse error or any
  other exception), or gives a value that is not a list, \<open>_clean_extensions_json\<close> prints
  one line and returns 0. It writes nothing and removes nothing: the world at return is
  exactly the one \<open>create_backup\<close> left, so the backup made for this call is still there.
\<close>

theorem C9_unreadable_manifest_keeps_backup:
  assumes "create_backup os p (world s) = (Inr (Some backup_path), w1)"
  shows
    "(read_json os p w1 = Inl e \<longrightarrow>
        clean_extensions_json os p force_mode s =
          (0, s\<lparr>world := w1,
                 trace := trace s @
                   [Log LInfo ''processing extensions.json'' [APath p], Backup p, ReadJson p,
                    Log LError
                      (if e = JSONDecodeError then ''extensions.json is malformed''
                       else ''error while processing extensions.json'') [AExn e]]\<rparr>))
     \<and> (read_json os p w1 = Inr d \<and> (\<forall>items. d \<noteq> JList items) \<longrightarrow>
        clean_extensions_json os p force_mode s =
          (0, s\<lparr>world := w1,
                 trace := trace s @
                   [Log LInfo ''processing extensions.json'' [APath p], Backup p, ReadJson p,
                    Log LWarning ''extensions.json is not the expected array'' []]\<rparr>))"
  using assms
  by (auto simp: clean_extensions_json_def json_handler_def io_defs split: exn.splits json.splits)

theorem C9_unreadable_manifest_keeps_backup_witness:
  "clean_extensions_json (sim_os ''nt'') manifest_path False (start (manifest_world None))
     = (0, \<lparr>world = (manifest_world None)
                      \<lparr>files := [(bak manifest_path, None), (manifest_path, None)]\<rparr>,
            trace =
              [Log LInfo ''processing extensions.json'' [APath manifest_path],
               Backup manifest_path, ReadJson manifest_path,
               Log LError ''extensions.json is malformed'' [AExn JSONDecodeError]]\<rparr>)
   \<and> path_exists (sim_os ''nt'')
        (world (snd (clean_extensions_json (sim_os ''nt'') manifest_path False
                       (start (manifest_world None)))))
        (bak manifest_path) = Inr True
   \<and> clean_extensions_json (sim_os ''nt'') manifest_path False
        (start (manifest_world (Some (ext_record ''Augment.vscode-augment''))))
     = (0, \<lparr>world = (manifest_world (Some (ext_record ''Augment.vscode-augment'')))
                      \<lparr>files := [(bak manifest_path, Some (ext_record ''Augment.vscode-augment'')),
                                  (manifest_path, Some (ext_record ''Augment.vscode-augment''))]\<rparr>,
            trace =
              [Log LInfo ''processing extensions.json'' [APath manifest_path],
               Backup manifest_path, ReadJson manifest_path,
               Log LWarning ''extensions.json is not the expected array'' []]\<rparr>)
   \<and> path_exists (sim_os ''nt'')
        (world (snd (clean_extensions_json (sim_os ''nt'') manifest_path False
                       (start (manifest_world (Some (ext_record ''Augment.vscode-augment'')))))))
        (bak manifest_path) = Inr True"
proof -
  let ?os = "sim_os ''nt''"
  let ?d = "ext_record ''Augment.vscode-augment''"
  let ?w1 = "\<lambda>c. (manifest_world c)\<lparr>files := [(bak manifest_path, c), (manifest_path, c)]\<rparr>"
  have b: "create_backup ?os manifest_path (world (start (manifest_world c)))
             = (Inr (Some (bak manifest_path)), ?w1 c)" for c
    by (simp add: sim_defs manifest_defs)
  have r1: "read_json ?os manifest_path (?w1 None) = Inl JSONDecodeError"
    by (simp add: sim_defs manifest_defs)
  have r2: "read_json ?os manifest_path (?w1 (Some ?d)) = Inr ?d \<and> (\<forall>items. ?d \<noteq> JList items)"
    by (simp add: sim_defs manifest_defs)
  have x: "path_exists ?os (?w1 c) (bak manifest_path) = Inr True" for c
    by (simp add: sim_defs manifest_defs)
  show ?thesis
    using C9_unreadable_manifest_keeps_backup [OF b, where e = JSONDecodeError and force_mode = False]
      C9_unreadable_manifest_keeps_backup [OF b, where d = ?d and force_mode = False] r1 r2 x
    by (simp add: start_def)
qed

lemma sanitize_writes_kept:
  assumes "create_backup os p (world s) = (Inr (Some backup_path), w1)"
    and "read_json os p w1 = Inr (JList items)"
    and "\<exists>item\<in>set items. is_marked os item"
    and "write_json os p (JList (filter (\<lambda>i. \<not> is_marked os i) items)) w1 = (None, w2)"
  shows "clean_extensions_json os p force_mode s =
          (1, s\<lparr>world := w2,
                 trace := trace s @
                   [Log LInfo ''processing extensions.json'' [APath p], Backup p, ReadJson p,
                    Log LInfo ''augment entries removed from extensions.json''
                      [ANum (int (length (filter (is_marked os) items)))]]
                   @ map (\<lambda>item. Log LInfo ''  - '' [AJson item]) (filter (is_marked os) items)
                   @ [WriteJson p (JList (filter (\<lambda>i. \<not> is_marked os i) items)),
                      Log LSuccess ''extensions.json cleaned, backup at'' [APath backup_path]]\<rparr>)"
proof -
  have rm: "filter (is_marked os) items \<noteq> []"
    using assms(3) by (auto simp: filter_empty_conv)
  show ?thesis
    using assms(1,2,4) rm
    by (simp add: clean_extensions_json_def partition_items_filter fold_emit io_defs)
qed

text \<open>
  C5. The filter loop keeps exactly the records that are not marked, in their original
  order, and collects the marked ones; for \<open>[A, B, C, D, E]\<close> with \<open>B\<close> and \<open>D\<close> marked
  the kept list is \<open>[A, C, E]\<close>. When at least one record is marked, the value written to
  the manifest is that kept list.
\<close>

theorem C5_kept_records_in_order:
  "partition_items os items ([], []) =
     (filter (\<lambda>i. \<not> is_marked os i) items, filter (is_marked os) items)
   \<and> (\<not> is_marked os A \<and> is_marked os B \<and> \<not> is_marked os C \<and> is_marked os D \<and> \<not> is_marked os E
        \<longrightarrow> fst (partition_items os [A, B, C, D, E] ([], [])) = [A, C, E])
   \<and> (create_backup os p (world s) = (Inr (Some backup_path), w1)
        \<and> read_json os p w1 = Inr (JList items)
        \<and> (\<exists>item\<in>set items. is_marked os item)
        \<and> write_json os p (JList (filter (\<lambda>i. \<not> is_marked os i) items)) w1 = (None, w2)
        \<longrightarrow> clean_extensions_json os p force_mode s =
          (1, s\<lparr>world := w2,
                 trace := trace s @
                   [Log LInfo ''processing extensions.json'' [APath p], Backup p, ReadJson p,
                    Log LInfo ''augment entries removed from extensions.json''
                      [ANum (int (length (filter (is_marked os) items)))]]
                   @ map (\<lambda>item. Log LInfo ''  - '' [AJson item]) (filter (is_marked os) items)
                   @ [WriteJson p (JList (filter (\<lambda>i. \<not> is_marked os i) items)),
                      Log LSuccess ''extensions.json cleaned, backup at'' [APath backup_path]]\<rparr>))"
  using sanitize_writes_kept [of os p s backup_path w1 items w2 force_mode]
  by (simp add: partition_items_filter)

theorem C5_kept_records_in_order_witness:
  "\<not> is_marked (sim_os ''nt'') (ext_record ''ms-python.python'')
   \<and> is_marked (sim_os ''nt'') (ext_record ''Augment.vscode-augment'')
   \<and> \<not> is_marked (sim_os ''nt'') (JStr ''github.copilot'')
   \<and> is_marked (sim_os ''nt'') (JStr ''augment.old'')
   \<and> \<not> is_marked (sim_os ''nt'') (ext_record ''rust-lang.rust-analyzer'')
   \<and> fst (partition_items (sim_os ''nt'')
            [ext_record ''ms-python.python'', ext_record ''Augment.vscode-augment'',
             JStr ''github.copilot'', JStr ''augment.old'', ext_record ''rust-lang.rust-analyzer'']
            ([], []))
       = [ext_record ''ms-python.python'', JStr ''github.copilot'',
          ext_record ''rust-lang.rust-analyzer'']
   \<and> clean_extensions_json (sim_os ''nt'') manifest_path False
        (start (manifest_world (Some marked_manifest)))
       = (1, \<lparr>world = (manifest_world (Some marked_manifest))
                        \<lparr>files :=
                           [(manifest_path,
                             Some (JList [ext_record ''ms-python.python'', JStr ''github.copilot'',
                                          ext_record ''rust-lang.rust-analyzer''])),
                            (bak manifest_path, Some marked_manifest)]\<rparr>,
              trace =
                [Log LInfo ''processing extensions.json'' [APath manifest_path],
                 Backup manifest_path, ReadJson manifest_path,
                 Log LInfo ''augment entries removed from extensions.json'' [ANum 2],
                 Log LInfo ''  - '' [AJson (ext_record ''Augment.vscode-augment'')],
                 Log LInfo ''  - '' [AJson (JStr ''augment.old'')],
                 WriteJson manifest_path
                   (JList [ext_record ''ms-python.python'', JStr ''github.copilot'',
                           ext_record ''rust-lang.rust-analyzer'']),
                 Log LSuccess ''extensions.json cleaned, backup at''
                   [APath (bak manifest_path)]]\<rparr>)"
proof -
  let ?os = "sim_os ''nt''"
  let ?A = "ext_record ''ms-python.python''"
  let ?B = "ext_record ''Augment.vscode-augment''"
  let ?C = "JStr ''github.copilot''"
  let ?D = "JStr ''augment.old''"
  let ?E = "ext_record ''rust-lang.rust-analyzer''"
  let ?w = "manifest_world (Some marked_manifest)"
  let ?w1 = "?w\<lparr>files := [(bak manifest_path, Some marked_manifest),
                            (manifest_path, Some marked_manifest)]\<rparr>"
  let ?w2 = "?w\<lparr>files := [(manifest_path, Some (JList [?A, ?C, ?E])),
                            (bak manifest_path, Some marked_manifest)]\<rparr>"
  have m: "\<not> is_marked ?os ?A" "is_marked ?os ?B" "\<not> is_marked ?os ?C" "is_marked ?os ?D"
    "\<not> is_marked ?os ?E"
    by (simp_all add: sim_defs manifest_defs)
  have b: "create_backup ?os manifest_path (world (start ?w)) = (Inr (Some (bak manifest_path)), ?w1)"
    by (simp add: sim_defs manifest_path_def manifest_world_def)
  have r: "read_json ?os manifest_path ?w1 = Inr (JList [?A, ?B, ?C, ?D, ?E])"
    by (simp add: sim_defs manifest_path_def manifest_world_def marked_manifest_def)
  have wr: "write_json ?os manifest_path (JList [?A, ?C, ?E]) ?w1 = (None, ?w2)"
    by (simp add: sim_defs manifest_path_def manifest_world_def)
  show ?thesis
    using C5_kept_records_in_order
            [where os = ?os and A = ?A and B = ?B and C = ?C and D = ?D and E = ?E
               and items = "[?A, ?B, ?C, ?D, ?E]" and p = manifest_path and s = "start ?w"
               and backup_path = "bak manifest_path" and ?w1.0 = ?w1 and ?w2.0 = ?w2
               and force_mode = False]
      m b r wr
    by (simp add: start_def)
qed

subsection \<open>Sweeping directories\<close>

text \<open>
  C6. When the enumeration of the workspace storage root ends with an exception,
  \<open>_clean_workspace_storage\<close> returns 0, whatever the loop deleted before: the state at
  return is the one the loop left over the entries already yielded, with one error line
  added, so the deletions made before the failure stay made and are not counted. The line
  names the exception of the enumeration, or the one that ended the loop before it.
\<close>

theorem C6_enumeration_failure_reports_zero:
  assumes "path_exists os (world s) workspace_storage_path = Inr True"
    and "iterdir os workspace_storage_path (world s) = (entries, Some e)"
  shows
    "clean_workspace_storage os workspace_storage_path force_mode s =
       (Inr 0,
        print_error ''failed to read the workspaceStorage directory''
          [AExn (case fst (workspace_loop os force_mode entries (0, 0)
                             (print_info ''cleaning workspaceStorage'' [] s)) of
                   Inl raised \<Rightarrow> raised
                 | Inr counts \<Rightarrow> e)]
          (snd (workspace_loop os force_mode entries (0, 0)
                  (print_info ''cleaning workspaceStorage'' [] s))))"
  using assms by (simp add: clean_workspace_storage_def split: prod.splits sum.splits)

theorem C6_enumeration_failure_reports_zero_witness:
  "path_exists (sim_os ''posix'') (workspace_world [[''workspaceStorage'']]) [''workspaceStorage'']
     = Inr True
   \<and> iterdir (sim_os ''posix'') [''workspaceStorage''] (workspace_world [[''workspaceStorage'']])
       = ([[''workspaceStorage'', ''1f3c'']], Some (OSError (Some 5)))
   \<and> fst (workspace_loop (sim_os ''posix'') False [[''workspaceStorage'', ''1f3c'']] (0, 0)
            (print_info ''cleaning workspaceStorage'' []
               (start (workspace_world [[''workspaceStorage'']])))) = Inr (1, 1)
   \<and> clean_workspace_storage (sim_os ''posix'') [''workspaceStorage''] False
        (start (workspace_world [[''workspaceStorage'']]))
       = (Inr 0, \<lparr>world = (workspace_world [[''workspaceStorage'']])\<lparr>files := []\<rparr>,
              trace =
                [Log LInfo ''cleaning workspaceStorage'' [],
                 Log LInfo ''checking workspace'' [AStr ''1f3c''],
                 Log LInfo ''trying to delete''
                   [APath [''workspaceStorage'', ''1f3c'', ''state.vscdb'']],
                 Unlink [''workspaceStorage'', ''1f3c'', ''state.vscdb''],
                 Log LSuccess ''deleted''
                   [APath [''workspaceStorage'', ''1f3c'', ''state.vscdb'']],
                 Log LError ''failed to read the workspaceStorage directory''
                   [AExn (OSError (Some 5))]]\<rparr>)
   \<and> fst (clean_workspace_storage (sim_os ''posix'') [''workspaceStorage''] False
            (start (workspace_world []))) = Inr 1"
proof -
  let ?os = "sim_os ''posix''"
  let ?w = "workspace_world [[''workspaceStorage'']]"
  have x: "path_exists ?os (world (start ?w)) [''workspaceStorage''] = Inr True"
    by (simp add: sim_defs workspace_world_def)
  have i: "iterdir ?os [''workspaceStorage''] (world (start ?w))
             = ([[''workspaceStorage'', ''1f3c'']], Some (OSError (Some 5)))"
    by (simp add: sim_defs workspace_world_def)
  have l: "workspace_loop ?os False [[''workspaceStorage'', ''1f3c'']] (0, 0)
             (print_info ''cleaning workspaceStorage'' [] (start ?w))
           = (Inr (1, 1),
              \<lparr>world = ?w\<lparr>files := []\<rparr>,
               trace =
                 [Log LInfo ''cleaning workspaceStorage'' [],
                  Log LInfo ''checking workspace'' [AStr ''1f3c''],
                  Log LInfo ''trying to delete''
                    [APath [''workspaceStorage'', ''1f3c'', ''state.vscdb'']],
                  Unlink [''workspaceStorage'', ''1f3c'', ''state.vscdb''],
                  Log LSuccess ''deleted''
                    [APath [''workspaceStorage'', ''1f3c'', ''state.vscdb'']]]\<rparr>)"
    by (simp add: TARGET_FILES_def safe_delete_file_def io_defs sim_defs workspace_world_def)
  have ok: "fst (clean_workspace_storage ?os [''workspaceStorage''] False
                   (start (workspace_world []))) = Inr 1"
    by (simp add: clean_workspace_storage_def TARGET_FILES_def safe_delete_file_def io_defs
          sim_defs workspace_world_def)
  show ?thesis
    using C6_enumeration_failure_reports_zero [OF x i, of False] x i l ok
    by (simp add: start_def io_defs)
qed



subsection \<open>The counts\<close>









































end
